theory Spec2Isabelle
  imports Main "HOL-Library.Char_ord" "HOL-Library.List_Lexorder" "HOL-Library.AList"
begin

section \<open>Byte strings\<close>

text \<open>
  A Go \<^verbatim>\<open>string\<close> is a sequence of bytes; it is modelled as \<^typ>\<open>string\<close>, a list of
  8-bit characters.  Bytes are compared through the order of \<^theory_text>\<open>Char_ord\<close> (the order
  of their codes), strings through the lexicographic order, as Go compares them.
  The functions of package \<^verbatim>\<open>strings\<close> that \<^verbatim>\<open>main.go\<close> and \<^verbatim>\<open>net/url\<close> call are written
  out for the separators they are called with, which are all single bytes except the
  three-byte \<^verbatim>\<open>%25\<close> of \<^verbatim>\<open>parseHost\<close>.
\<close>

definition byte_in :: "char \<Rightarrow> char \<Rightarrow> char \<Rightarrow> bool" where
  "byte_in c lo hi = (lo \<le> c \<and> c \<le> hi)"

definition strings_HasPrefix :: "string \<Rightarrow> string \<Rightarrow> bool" where
  "strings_HasPrefix s pre = (length pre \<le> length s \<and> take (length pre) s = pre)"

definition strings_HasSuffix :: "string \<Rightarrow> string \<Rightarrow> bool" where
  "strings_HasSuffix s suf = (length suf \<le> length s \<and> drop (length s - length suf) s = suf)"

definition strings_ContainsByte :: "string \<Rightarrow> char \<Rightarrow> bool" where
  "strings_ContainsByte s c = (c \<in> set s)"

definition strings_Count :: "string \<Rightarrow> char \<Rightarrow> nat" where
  "strings_Count s c = length (filter (\<lambda>x. x = c) s)"

text \<open>\<^verbatim>\<open>strings.Cut(s, sep)\<close>: the text before the first \<^verbatim>\<open>sep\<close>, the text after it, and
  whether \<^verbatim>\<open>sep\<close> occurs; without \<^verbatim>\<open>sep\<close> the result is \<^verbatim>\<open>(s, "", false)\<close>.\<close>

definition strings_Cut :: "string \<Rightarrow> char \<Rightarrow> string \<times> string \<times> bool" where
  "strings_Cut s sep =
     (takeWhile (\<lambda>x. x \<noteq> sep) s, drop 1 (dropWhile (\<lambda>x. x \<noteq> sep) s), sep \<in> set s)"

text \<open>\<^verbatim>\<open>strings.Index\<close> and \<^verbatim>\<open>strings.LastIndex\<close>; Go's \<^verbatim>\<open>-1\<close> is \<^term>\<open>None\<close>.\<close>

fun strings_Index :: "string \<Rightarrow> string \<Rightarrow> nat option" where
  "strings_Index [] sub = (if sub = [] then Some 0 else None)"
| "strings_Index (x # xs) sub =
     (if take (length sub) (x # xs) = sub then Some 0
      else map_option Suc (strings_Index xs sub))"

definition strings_LastIndexByte :: "string \<Rightarrow> char \<Rightarrow> nat option" where
  "strings_LastIndexByte s c =
     (if c \<in> set s then Some (length s - 1 - length (takeWhile (\<lambda>x. x \<noteq> c) (rev s)))
      else None)"

text \<open>\<^verbatim>\<open>strings.TrimLeft\<close>, \<^verbatim>\<open>TrimRight\<close> and \<^verbatim>\<open>Trim\<close> with a one-byte cutset.\<close>

definition strings_TrimLeft :: "string \<Rightarrow> char \<Rightarrow> string" where
  "strings_TrimLeft s c = dropWhile (\<lambda>x. x = c) s"

definition strings_TrimRight :: "string \<Rightarrow> char \<Rightarrow> string" where
  "strings_TrimRight s c = rev (dropWhile (\<lambda>x. x = c) (rev s))"

definition strings_Trim :: "string \<Rightarrow> char \<Rightarrow> string" where
  "strings_Trim s c = strings_TrimRight (strings_TrimLeft s c) c"

text \<open>\<^verbatim>\<open>strings.Split(s, sep)\<close>: one more piece than there are separators, so the empty
  string splits into one empty piece.\<close>

fun strings_Split :: "string \<Rightarrow> char \<Rightarrow> string list" where
  "strings_Split [] sep = [[]]"
| "strings_Split (x # xs) sep =
     (if x = sep then [] # strings_Split xs sep
      else (case strings_Split xs sep of
              [] \<Rightarrow> [[x]]
            | p # ps \<Rightarrow> (x # p) # ps))"

text \<open>\<^verbatim>\<open>strings.ToLower\<close> on ASCII text (it is only applied to a scheme, which
  \<^verbatim>\<open>getScheme\<close> has checked to be ASCII letters, digits, \<^verbatim>\<open>+\<close>, \<^verbatim>\<open>-\<close> and \<^verbatim>\<open>.\<close>).\<close>

definition ascii_lower :: "char \<Rightarrow> char" where
  "ascii_lower c = (if byte_in c CHR ''A'' CHR ''Z'' then char_of (of_char c + (32::nat)) else c)"

definition strings_ToLower :: "string \<Rightarrow> string" where
  "strings_ToLower s = map ascii_lower s"

text \<open>
  \<^verbatim>\<open>strings.TrimSpace\<close> removes the leading and trailing white space that
  \<^verbatim>\<open>unicode.IsSpace\<close> accepts.  On bytes these are the UTF-8 encodings of
  U+0009..U+000D, U+0020, U+0085, U+00A0, U+1680, U+2000..U+200A, U+2028, U+2029,
  U+202F, U+205F and U+3000; a byte sequence that is not one of them decodes to another
  rune (or to the error rune) and stops the trimming.
\<close>

definition unicode_spaces :: "string list" where
  "unicode_spaces =
     [[CHR 0x09], [CHR 0x0A], [CHR 0x0B], [CHR 0x0C], [CHR 0x0D], [CHR 0x20],
      [CHR 0xC2, CHR 0x85], [CHR 0xC2, CHR 0xA0],
      [CHR 0xE1, CHR 0x9A, CHR 0x80],
      [CHR 0xE2, CHR 0x80, CHR 0x80], [CHR 0xE2, CHR 0x80, CHR 0x81],
      [CHR 0xE2, CHR 0x80, CHR 0x82], [CHR 0xE2, CHR 0x80, CHR 0x83],
      [CHR 0xE2, CHR 0x80, CHR 0x84], [CHR 0xE2, CHR 0x80, CHR 0x85],
      [CHR 0xE2, CHR 0x80, CHR 0x86], [CHR 0xE2, CHR 0x80, CHR 0x87],
      [CHR 0xE2, CHR 0x80, CHR 0x88], [CHR 0xE2, CHR 0x80, CHR 0x89],
      [CHR 0xE2, CHR 0x80, CHR 0x8A],
      [CHR 0xE2, CHR 0x80, CHR 0xA8], [CHR 0xE2, CHR 0x80, CHR 0xA9],
      [CHR 0xE2, CHR 0x80, CHR 0xAF], [CHR 0xE2, CHR 0x81, CHR 0x9F],
      [CHR 0xE3, CHR 0x80, CHR 0x80]]"

definition leading_space :: "string \<Rightarrow> nat" where
  "leading_space s =
     (case find (\<lambda>w. strings_HasPrefix s w) unicode_spaces of
        None \<Rightarrow> 0 | Some w \<Rightarrow> length w)"

definition trailing_space :: "string \<Rightarrow> nat" where
  "trailing_space s =
     (case find (\<lambda>w. strings_HasSuffix s w) unicode_spaces of
        None \<Rightarrow> 0 | Some w \<Rightarrow> length w)"

function trimLeftSpace :: "string \<Rightarrow> string" where
  "trimLeftSpace s =
     (if 0 < leading_space s \<and> s \<noteq> [] then trimLeftSpace (drop (leading_space s) s) else s)"
  by pat_completeness auto
termination
  by (relation "measure length") auto

function trimRightSpace :: "string \<Rightarrow> string" where
  "trimRightSpace s =
     (if 0 < trailing_space s \<and> s \<noteq> []
      then trimRightSpace (take (length s - trailing_space s) s) else s)"
  by pat_completeness auto
termination
  by (relation "measure length") auto

definition strings_TrimSpace :: "string \<Rightarrow> string" where
  "strings_TrimSpace s = trimRightSpace (trimLeftSpace s)"

section \<open>Package net/url\<close>

text \<open>
  \<^verbatim>\<open>removeTagParamsFromURL\<close> and \<^verbatim>\<open>normalizeBulkArchiveURL\<close> are built on Go's
  \<^verbatim>\<open>net/url\<close>: \<^verbatim>\<open>url.Parse\<close>, \<^verbatim>\<open>URL.Query\<close>, \<^verbatim>\<open>Values.Del\<close>, \<^verbatim>\<open>Values.Encode\<close> and
  \<^verbatim>\<open>URL.String\<close>.  The definitions below follow that package as of Go 1.24 (the
  repository's README: tested with 1.24.3), function by function and under its names.
\<close>

datatype url_error =
    InvalidControlCharacter
  | EmptyURL
  | InvalidURIForRequest
  | MissingProtocolScheme
  | ColonInFirstPathSegment
  | EscapeError string
  | InvalidHostError string
  | MissingBracketInHost
  | InvalidPort string
  | InvalidUserinfo

datatype encoding =
    encodePath
  | encodePathSegment
  | encodeHost
  | encodeZone
  | encodeUserPassword
  | encodeQueryComponent
  | encodeFragment

definition ishex :: "char \<Rightarrow> bool" where
  "ishex c = (byte_in c CHR ''0'' CHR ''9'' \<or> byte_in c CHR ''a'' CHR ''f''
              \<or> byte_in c CHR ''A'' CHR ''F'')"

definition unhex :: "char \<Rightarrow> nat" where
  "unhex c =
     (if byte_in c CHR ''0'' CHR ''9'' then of_char c - of_char CHR ''0''
      else if byte_in c CHR ''a'' CHR ''f'' then of_char c - of_char CHR ''a'' + 10
      else if byte_in c CHR ''A'' CHR ''F'' then of_char c - of_char CHR ''A'' + 10
      else 0)"

definition upperhex :: string where
  "upperhex = ''0123456789ABCDEF''"

definition is_alnum :: "char \<Rightarrow> bool" where
  "is_alnum c = (byte_in c CHR ''a'' CHR ''z'' \<or> byte_in c CHR ''A'' CHR ''Z''
                 \<or> byte_in c CHR ''0'' CHR ''9'')"

text \<open>\<^verbatim>\<open>shouldEscape(c, mode)\<close>: whether byte \<^verbatim>\<open>c\<close> is written as \<^verbatim>\<open>%XX\<close> in the part of
  the URL that \<^verbatim>\<open>mode\<close> names.\<close>

definition shouldEscape :: "char \<Rightarrow> encoding \<Rightarrow> bool" where
  "shouldEscape c mode =
     (if is_alnum c then False
      else if (mode = encodeHost \<or> mode = encodeZone) \<and>
              c \<in> set [CHR ''!'', CHR ''$'', CHR ''&'', CHR 0x27, CHR ''('', CHR '')'', CHR ''*'',
                        CHR ''+'', CHR '','', CHR '';'', CHR ''='', CHR '':'', CHR ''['', CHR '']'',
                        CHR ''<'', CHR ''>'', CHR 0x22]
      then False
      else if c \<in> set [CHR ''-'', CHR ''_'', CHR ''.'', CHR ''~''] then False
      else if c \<in> set [CHR ''$'', CHR ''&'', CHR ''+'', CHR '','', CHR ''/'', CHR '':'', CHR '';'',
                        CHR ''='', CHR ''?'', CHR ''@''] \<and> mode = encodePath
      then c = CHR ''?''
      else if c \<in> set [CHR ''$'', CHR ''&'', CHR ''+'', CHR '','', CHR ''/'', CHR '':'', CHR '';'',
                        CHR ''='', CHR ''?'', CHR ''@''] \<and> mode = encodePathSegment
      then c = CHR ''/'' \<or> c = CHR '';'' \<or> c = CHR '','' \<or> c = CHR ''?''
      else if c \<in> set [CHR ''$'', CHR ''&'', CHR ''+'', CHR '','', CHR ''/'', CHR '':'', CHR '';'',
                        CHR ''='', CHR ''?'', CHR ''@''] \<and> mode = encodeUserPassword
      then c = CHR ''@'' \<or> c = CHR ''/'' \<or> c = CHR ''?'' \<or> c = CHR '':''
      else if c \<in> set [CHR ''$'', CHR ''&'', CHR ''+'', CHR '','', CHR ''/'', CHR '':'', CHR '';'',
                        CHR ''='', CHR ''?'', CHR ''@''] \<and> mode = encodeQueryComponent
      then True
      else if c \<in> set [CHR ''$'', CHR ''&'', CHR ''+'', CHR '','', CHR ''/'', CHR '':'', CHR '';'',
                        CHR ''='', CHR ''?'', CHR ''@''] \<and> mode = encodeFragment
      then False
      else if mode = encodeFragment \<and> c \<in> set [CHR ''!'', CHR ''('', CHR '')'', CHR ''*'']
      then False
      else True)"

text \<open>\<^verbatim>\<open>escape(s, mode)\<close>: a space becomes \<^verbatim>\<open>+\<close> in a query component, every other byte
  that \<^verbatim>\<open>shouldEscape\<close> names becomes \<^verbatim>\<open>%\<close> and two upper-case hex digits.\<close>

definition escape_byte :: "encoding \<Rightarrow> char \<Rightarrow> string" where
  "escape_byte mode c =
     (if c = CHR '' '' \<and> mode = encodeQueryComponent then ''+''
      else if shouldEscape c mode
      then [CHR ''%'', upperhex ! (of_char c div 16), upperhex ! (of_char c mod 16)]
      else [c])"

definition escape :: "string \<Rightarrow> encoding \<Rightarrow> string" where
  "escape s mode = concat (map (escape_byte mode) s)"

text \<open>
  \<^verbatim>\<open>unescape(s, mode)\<close>.  The source checks the whole string in a first loop and decodes
  it in a second; the function below checks and decodes in one pass from the left, which
  reports the same (leftmost) error and the same decoded text.
\<close>

fun unescape :: "string \<Rightarrow> encoding \<Rightarrow> url_error + string" where
  "unescape [] mode = Inr []"
| "unescape (c # s) mode =
     (if c = CHR ''%'' then
        (case s of
           a # b # s' \<Rightarrow>
             if \<not> ishex a \<or> \<not> ishex b then Inl (EscapeError (take 3 (c # s)))
             else if mode = encodeHost \<and> unhex a < 8 \<and> [c, a, b] \<noteq> ''%25''
             then Inl (EscapeError [c, a, b])
             else if mode = encodeZone \<and> [c, a, b] \<noteq> ''%25''
                     \<and> char_of (unhex a * 16 + unhex b) \<noteq> CHR '' ''
                     \<and> shouldEscape (char_of (unhex a * 16 + unhex b)) encodeHost
             then Inl (EscapeError [c, a, b])
             else (case unescape s' mode of
                     Inl e \<Rightarrow> Inl e
                   | Inr t \<Rightarrow> Inr (char_of (unhex a * 16 + unhex b) # t))
         | _ \<Rightarrow> Inl (EscapeError (take 3 (c # s))))
      else if c = CHR ''+'' then
        (case unescape s mode of
           Inl e \<Rightarrow> Inl e
         | Inr t \<Rightarrow> Inr ((if mode = encodeQueryComponent then CHR '' '' else CHR ''+'') # t))
      else if (mode = encodeHost \<or> mode = encodeZone) \<and> c < CHR 0x80 \<and> shouldEscape c encodeHost
      then Inl (InvalidHostError [c])
      else (case unescape s mode of
              Inl e \<Rightarrow> Inl e
            | Inr t \<Rightarrow> Inr (c # t)))"

definition QueryEscape :: "string \<Rightarrow> string" where
  "QueryEscape s = escape s encodeQueryComponent"

definition QueryUnescape :: "string \<Rightarrow> url_error + string" where
  "QueryUnescape s = unescape s encodeQueryComponent"

subsection \<open>The URL value\<close>

record Userinfo =
  username :: string
  password :: string
  passwordSet :: bool

record URL =
  Scheme :: string
  Opaque :: string
  User :: "Userinfo option"
  Host :: string
  Path :: string
  RawPath :: string
  OmitHost :: bool
  ForceQuery :: bool
  RawQuery :: string
  Fragment :: string
  RawFragment :: string

text \<open>\<^verbatim>\<open>new(URL)\<close>: every field at its zero value.\<close>

definition new_URL :: URL where
  "new_URL = \<lparr>Scheme = [], Opaque = [], User = None, Host = [], Path = [], RawPath = [],
              OmitHost = False, ForceQuery = False, RawQuery = [], Fragment = [],
              RawFragment = []\<rparr>"

definition Userinfo_String :: "Userinfo \<Rightarrow> string" where
  "Userinfo_String ui =
     (let s = escape (username ui) encodeUserPassword
      in if passwordSet ui then s @ '':'' @ escape (password ui) encodeUserPassword else s)"

subsection \<open>Parsing\<close>

text \<open>\<^verbatim>\<open>getScheme\<close>: \<^verbatim>\<open>seen\<close> is \<^verbatim>\<open>rawURL[:i]\<close>, the third argument is \<^verbatim>\<open>rawURL[i:]\<close>.\<close>

fun getScheme_scan :: "string \<Rightarrow> string \<Rightarrow> string \<Rightarrow> url_error + string \<times> string" where
  "getScheme_scan rawURL seen [] = Inr ([], rawURL)"
| "getScheme_scan rawURL seen (c # cs) =
     (if byte_in c CHR ''a'' CHR ''z'' \<or> byte_in c CHR ''A'' CHR ''Z''
      then getScheme_scan rawURL (seen @ [c]) cs
      else if byte_in c CHR ''0'' CHR ''9'' \<or> c = CHR ''+'' \<or> c = CHR ''-'' \<or> c = CHR ''.''
      then (if seen = [] then Inr ([], rawURL) else getScheme_scan rawURL (seen @ [c]) cs)
      else if c = CHR '':''
      then (if seen = [] then Inl MissingProtocolScheme else Inr (seen, cs))
      else Inr ([], rawURL))"

definition getScheme :: "string \<Rightarrow> url_error + string \<times> string" where
  "getScheme rawURL = getScheme_scan rawURL [] rawURL"

definition stringContainsCTLByte :: "string \<Rightarrow> bool" where
  "stringContainsCTLByte s = list_ex (\<lambda>b. b < CHR '' '' \<or> b = CHR 0x7F) s"

definition validOptionalPort :: "string \<Rightarrow> bool" where
  "validOptionalPort port =
     (case port of
        [] \<Rightarrow> True
      | c # ds \<Rightarrow> c = CHR '':'' \<and> list_all (\<lambda>b. \<not> (b < CHR ''0'' \<or> CHR ''9'' < b)) ds)"

definition validUserinfo :: "string \<Rightarrow> bool" where
  "validUserinfo s =
     list_all (\<lambda>r. byte_in r CHR ''A'' CHR ''Z'' \<or> byte_in r CHR ''a'' CHR ''z''
                  \<or> byte_in r CHR ''0'' CHR ''9''
                  \<or> r \<in> set [CHR ''-'', CHR ''.'', CHR ''_'', CHR '':'', CHR ''~'', CHR ''!'',
                              CHR ''$'', CHR ''&'', CHR 0x27, CHR ''('', CHR '')'', CHR ''*'',
                              CHR ''+'', CHR '','', CHR '';'', CHR ''='', CHR ''%'', CHR ''@'']) s"

definition parseHost :: "string \<Rightarrow> url_error + string" where
  "parseHost host =
     (if strings_HasPrefix host ''['' then
        (case strings_LastIndexByte host CHR '']'' of
           None \<Rightarrow> Inl MissingBracketInHost
         | Some i \<Rightarrow>
             if \<not> validOptionalPort (drop (i + 1) host) then Inl (InvalidPort (drop (i + 1) host))
             else
               (case strings_Index (take i host) ''%25'' of
                  Some zone \<Rightarrow>
                    (case unescape (take zone host) encodeHost of
                       Inl e \<Rightarrow> Inl e
                     | Inr host1 \<Rightarrow>
                    (case unescape (drop zone (take i host)) encodeZone of
                       Inl e \<Rightarrow> Inl e
                     | Inr host2 \<Rightarrow>
                    (case unescape (drop i host) encodeHost of
                       Inl e \<Rightarrow> Inl e
                     | Inr host3 \<Rightarrow> Inr (host1 @ host2 @ host3))))
                | None \<Rightarrow> unescape host encodeHost))
      else
        (case strings_LastIndexByte host CHR '':'' of
           Some i \<Rightarrow>
             if \<not> validOptionalPort (drop i host) then Inl (InvalidPort (drop i host))
             else unescape host encodeHost
         | None \<Rightarrow> unescape host encodeHost))"

definition parseAuthority :: "string \<Rightarrow> url_error + Userinfo option \<times> string" where
  "parseAuthority authority =
     (case strings_LastIndexByte authority CHR ''@'' of
        None \<Rightarrow>
          (case parseHost authority of Inl e \<Rightarrow> Inl e | Inr host \<Rightarrow> Inr (None, host))
      | Some i \<Rightarrow>
          (case parseHost (drop (i + 1) authority) of
             Inl e \<Rightarrow> Inl e
           | Inr host \<Rightarrow>
               let userinfo = take i authority in
               if \<not> validUserinfo userinfo then Inl InvalidUserinfo
               else if \<not> strings_ContainsByte userinfo CHR '':'' then
                 (case unescape userinfo encodeUserPassword of
                    Inl e \<Rightarrow> Inl e
                  | Inr name \<Rightarrow>
                      Inr (Some \<lparr>username = name, password = [], passwordSet = False\<rparr>, host))
               else
                 (case strings_Cut userinfo CHR '':'' of (name0, pass0, _) \<Rightarrow>
                    (case unescape name0 encodeUserPassword of
                       Inl e \<Rightarrow> Inl e
                     | Inr name \<Rightarrow>
                    (case unescape pass0 encodeUserPassword of
                       Inl e \<Rightarrow> Inl e
                     | Inr pass \<Rightarrow>
                         Inr (Some \<lparr>username = name, password = pass, passwordSet = True\<rparr>,
                              host))))))"

definition URL_setPath :: "URL \<Rightarrow> string \<Rightarrow> url_error + URL" where
  "URL_setPath u p =
     (case unescape p encodePath of
        Inl e \<Rightarrow> Inl e
      | Inr path \<Rightarrow>
          if p = escape path encodePath then Inr (u\<lparr>Path := path, RawPath := []\<rparr>)
          else Inr (u\<lparr>Path := path, RawPath := p\<rparr>))"

definition URL_setFragment :: "URL \<Rightarrow> string \<Rightarrow> url_error + URL" where
  "URL_setFragment u f =
     (case unescape f encodeFragment of
        Inl e \<Rightarrow> Inl e
      | Inr frag \<Rightarrow>
          if f = escape frag encodeFragment then Inr (u\<lparr>Fragment := frag, RawFragment := []\<rparr>)
          else Inr (u\<lparr>Fragment := frag, RawFragment := f\<rparr>))"

text \<open>\<^verbatim>\<open>parse(rawURL, viaRequest)\<close>; \<^verbatim>\<open>url.Parse\<close> calls it with \<^verbatim>\<open>viaRequest = false\<close>.\<close>

definition url_parse :: "string \<Rightarrow> bool \<Rightarrow> url_error + URL" where
  "url_parse rawURL viaRequest =
     (if stringContainsCTLByte rawURL then Inl InvalidControlCharacter
      else if rawURL = [] \<and> viaRequest then Inl EmptyURL
      else if rawURL = ''*'' then Inr (new_URL\<lparr>Path := ''*''\<rparr>)
      else
        (case getScheme rawURL of
           Inl e \<Rightarrow> Inl e
         | Inr (scheme, rest0) \<Rightarrow>
             let url = new_URL\<lparr>Scheme := strings_ToLower scheme\<rparr>;
                 (rest, url) =
                   (if strings_HasSuffix rest0 ''?'' \<and> strings_Count rest0 CHR ''?'' = 1
                    then (take (length rest0 - 1) rest0, url\<lparr>ForceQuery := True\<rparr>)
                    else (case strings_Cut rest0 CHR ''?'' of
                            (r, q, _) \<Rightarrow> (r, url\<lparr>RawQuery := q\<rparr>)))
             in
               if \<not> strings_HasPrefix rest ''/'' \<and> Scheme url \<noteq> []
               then Inr (url\<lparr>Opaque := rest\<rparr>)
               else if \<not> strings_HasPrefix rest ''/'' \<and> viaRequest
               then Inl InvalidURIForRequest
               else if \<not> strings_HasPrefix rest ''/''
                       \<and> strings_ContainsByte (fst (strings_Cut rest CHR ''/'')) CHR '':''
               then Inl ColonInFirstPathSegment
               else if (Scheme url \<noteq> [] \<or> \<not> viaRequest \<and> \<not> strings_HasPrefix rest ''///'')
                       \<and> strings_HasPrefix rest ''//''
               then
                 (let authority0 = drop 2 rest;
                      (authority, rest') =
                        (case strings_Index authority0 ''/'' of
                           Some i \<Rightarrow> (take i authority0, drop i authority0)
                         | None \<Rightarrow> (authority0, []))
                  in case parseAuthority authority of
                       Inl e \<Rightarrow> Inl e
                     | Inr (user, host) \<Rightarrow> URL_setPath (url\<lparr>User := user, Host := host\<rparr>) rest')
               else if Scheme url \<noteq> [] \<and> strings_HasPrefix rest ''/''
               then URL_setPath (url\<lparr>OmitHost := True\<rparr>) rest
               else URL_setPath url rest))"

definition url_Parse :: "string \<Rightarrow> url_error + URL" where
  "url_Parse rawURL =
     (case strings_Cut rawURL CHR ''#'' of
        (u, frag, _) \<Rightarrow>
          (case url_parse u False of
             Inl e \<Rightarrow> Inl e
           | Inr url \<Rightarrow> if frag = [] then Inr url else URL_setFragment url frag))"

subsection \<open>Query values\<close>

text \<open>
  \<^verbatim>\<open>url.Values\<close> is a \<^verbatim>\<open>map[string][]string\<close>.  It is modelled as an association list
  with one entry per key.  Go leaves the iteration order of a map open, but the only
  function here that iterates, \<^verbatim>\<open>Encode\<close>, sorts the keys first.
\<close>

type_synonym Values = "(string \<times> string list) list"

definition Values_has :: "Values \<Rightarrow> string \<Rightarrow> bool" where
  "Values_has v k = (map_of v k \<noteq> None)"

definition Values_append :: "Values \<Rightarrow> string \<Rightarrow> string \<Rightarrow> Values" where
  "Values_append m k x =
     AList.update k ((case map_of m k of None \<Rightarrow> [] | Some vs \<Rightarrow> vs) @ [x]) m"

definition Values_Del :: "Values \<Rightarrow> string \<Rightarrow> Values" where
  "Values_Del v k = AList.delete k v"

text \<open>One round of the loop of \<^verbatim>\<open>parseQuery\<close>, for the text \<^verbatim>\<open>key\<close> up to the next
  \<^verbatim>\<open>&\<close>: a pair with a semicolon, an empty pair and a pair whose key or value does not
  unescape are skipped (\<^verbatim>\<open>URL.Query\<close> drops the error that \<^verbatim>\<open>ParseQuery\<close> reports).\<close>

definition parseQuery_pair :: "Values \<Rightarrow> string \<Rightarrow> Values" where
  "parseQuery_pair m key =
     (if strings_ContainsByte key CHR '';'' then m
      else if key = [] then m
      else
        (case strings_Cut key CHR ''='' of
           (k0, v0, _) \<Rightarrow>
             (case QueryUnescape k0 of
                Inl e \<Rightarrow> m
              | Inr k \<Rightarrow>
                  (case QueryUnescape v0 of
                     Inl e \<Rightarrow> m
                   | Inr v \<Rightarrow> Values_append m k v))))"

function parseQuery :: "Values \<Rightarrow> string \<Rightarrow> Values" where
  "parseQuery m query =
     (if query = [] then m
      else parseQuery (parseQuery_pair m (fst (strings_Cut query CHR ''&'')))
                      (fst (snd (strings_Cut query CHR ''&''))))"
  by pat_completeness auto
termination
proof (relation "measure (\<lambda>(m, query). length query)")
  show "wf (measure (\<lambda>(m, query). length query))"
    by simp
next
  fix m :: Values and query :: string
  assume "query \<noteq> []"
  moreover have "length (dropWhile (\<lambda>x. x \<noteq> CHR ''&'') query) \<le> length query"
    by (rule length_dropWhile_le)
  ultimately show "((parseQuery_pair m (fst (strings_Cut query CHR ''&'')),
                     fst (snd (strings_Cut query CHR ''&''))), (m, query))
                   \<in> measure (\<lambda>(m, query). length query)"
    by (cases query) (auto simp: strings_Cut_def)
qed

definition URL_Query :: "URL \<Rightarrow> Values" where
  "URL_Query u = parseQuery [] (RawQuery u)"

fun join_amp :: "string list \<Rightarrow> string" where
  "join_amp [] = []"
| "join_amp [p] = p"
| "join_amp (p # ps) = p @ ''&'' @ join_amp ps"

definition Values_Encode :: "Values \<Rightarrow> string" where
  "Values_Encode v =
     join_amp (concat (map (\<lambda>(k, vs). map (\<lambda>x. QueryEscape k @ ''='' @ QueryEscape x) vs)
                           (sort_key fst v)))"

subsection \<open>Writing a URL\<close>

definition validEncoded :: "string \<Rightarrow> encoding \<Rightarrow> bool" where
  "validEncoded s mode =
     list_all (\<lambda>c. c \<in> set [CHR ''!'', CHR ''$'', CHR ''&'', CHR 0x27, CHR ''('', CHR '')'',
                            CHR ''*'', CHR ''+'', CHR '','', CHR '';'', CHR ''='', CHR '':'',
                            CHR ''@'', CHR ''['', CHR '']'', CHR ''%'']
                   \<or> \<not> shouldEscape c mode) s"

definition URL_EscapedPath :: "URL \<Rightarrow> string" where
  "URL_EscapedPath u =
     (if RawPath u \<noteq> [] \<and> validEncoded (RawPath u) encodePath
         \<and> unescape (RawPath u) encodePath = Inr (Path u)
      then RawPath u
      else if Path u = ''*'' then ''*''
      else escape (Path u) encodePath)"

definition URL_EscapedFragment :: "URL \<Rightarrow> string" where
  "URL_EscapedFragment u =
     (if RawFragment u \<noteq> [] \<and> validEncoded (RawFragment u) encodeFragment
         \<and> unescape (RawFragment u) encodeFragment = Inr (Fragment u)
      then RawFragment u
      else escape (Fragment u) encodeFragment)"

definition URL_String :: "URL \<Rightarrow> string" where
  "URL_String u =
     (let buf = (if Scheme u \<noteq> [] then Scheme u @ '':'' else []);
          buf =
            (if Opaque u \<noteq> [] then buf @ Opaque u
             else
               (let buf =
                      (if Scheme u \<noteq> [] \<or> Host u \<noteq> [] \<or> User u \<noteq> None then
                         (if OmitHost u \<and> Host u = [] \<and> User u = None then buf
                          else
                            (let buf = (if Host u \<noteq> [] \<or> Path u \<noteq> [] \<or> User u \<noteq> None
                                        then buf @ ''//'' else buf);
                                 buf = (case User u of
                                          Some ui \<Rightarrow> buf @ Userinfo_String ui @ ''@''
                                        | None \<Rightarrow> buf)
                             in if Host u \<noteq> [] then buf @ escape (Host u) encodeHost else buf))
                       else buf);
                    path = URL_EscapedPath u;
                    buf = (if path \<noteq> [] \<and> hd path \<noteq> CHR ''/'' \<and> Host u \<noteq> []
                           then buf @ ''/'' else buf);
                    buf = (if buf = []
                              \<and> strings_ContainsByte (fst (strings_Cut path CHR ''/'')) CHR '':''
                           then buf @ ''./'' else buf)
                in buf @ path));
          buf = (if ForceQuery u \<or> RawQuery u \<noteq> [] then buf @ ''?'' @ RawQuery u else buf)
      in if Fragment u \<noteq> [] then buf @ ''#'' @ URL_EscapedFragment u else buf)"

section \<open>The URL helpers of main.go\<close>

text \<open>\<^verbatim>\<open>removeTagParamsFromURL\<close> (main.go, lines 568-597).\<close>

definition removeTagParamsFromURL :: "string \<Rightarrow> string \<times> bool" where
  "removeTagParamsFromURL rawURL =
     (if rawURL = [] then (rawURL, False)
      else
        (case url_Parse rawURL of
           Inl err \<Rightarrow> (rawURL, False)
         | Inr u \<Rightarrow>
             let q = URL_Query u;
                 changed = False;
                 (q, changed) = (if Values_has q ''tag''
                                 then (Values_Del q ''tag'', True) else (q, changed));
                 (q, changed) = (if Values_has q ''tagging''
                                 then (Values_Del q ''tagging'', True) else (q, changed))
             in if \<not> changed then (rawURL, False)
                else (URL_String (u\<lparr>RawQuery := Values_Encode q\<rparr>), True)))"

text \<open>\<^verbatim>\<open>normalizeBulkArchiveURL\<close> (main.go, lines 238-260).  The global \<^verbatim>\<open>bulkS3Prefix\<close>,
  set once by \<^verbatim>\<open>init\<close> from the environment, is the first argument.\<close>

definition normalizeBulkArchiveURL :: "string \<Rightarrow> string \<Rightarrow> string" where
  "normalizeBulkArchiveURL bulkS3Prefix rawURL =
     (if bulkS3Prefix = [] \<or> rawURL = [] then rawURL
      else
        (case url_Parse rawURL of
           Inl err \<Rightarrow> rawURL
         | Inr u \<Rightarrow>
             let parts = strings_Split (strings_Trim (Path u) CHR ''/'') CHR ''/''
             in if length parts = 0 then rawURL
                else
                  (let filename = parts ! (length parts - 1)
                   in if filename = [] then rawURL
                      else strings_TrimRight bulkS3Prefix CHR ''/'' @ ''/'' @ filename)))"

section \<open>Rows, configuration and the world outside the program\<close>

text \<open>
  The row structs of main.go.  A \<^verbatim>\<open>sql.NullString\<close> is modelled as \<^typ>\<open>string option\<close>:
  \<^term>\<open>None\<close> is a NULL column (\<^verbatim>\<open>Valid = false\<close>).  Identifiers are \<^verbatim>\<open>int64\<close>; they are
  only compared, never computed with, so they are modelled as \<^typ>\<open>int\<close>.
\<close>

record BulkRow =
  ID :: int
  ArchiveFile :: "string option"

record PartnerRow =
  PartnerID :: int
  Meta :: "string option"

record ClientRow =
  ClientID :: int
  ClientContractAttachment :: "string option"
  ClientTaxAttachment :: "string option"
  ClientPksAttachment :: "string option"

text \<open>The two globals that \<^verbatim>\<open>init\<close> reads from the environment.\<close>

record config =
  hydraSignPrefix :: string
  bulkS3Prefix :: string

text \<open>
  The value a JSON text decodes to under \<^verbatim>\<open>json.Unmarshal\<close> into
  \<^verbatim>\<open>map[string]interface{}\<close>.  Numbers decode to \<^verbatim>\<open>float64\<close>; the program never looks
  into one, so their type is left as the parameter \<^typ>\<open>'n\<close>.  An object is an association
  list with one entry per key.  The decoder and the encoder of \<^verbatim>\<open>encoding/json\<close>
  themselves are parameters of the partner migrator.
\<close>

datatype 'n json =
    JNull
  | JBool bool
  | JNumber 'n
  | JString string
  | JArray "'n json list"
  | JObject "(string \<times> 'n json) list"

record 'n json_codec =
  json_Unmarshal :: "string \<Rightarrow> (string \<times> 'n json) list option"
  json_Marshal :: "(string \<times> 'n json) list \<Rightarrow> string option"

text \<open>
  The database.  A row of a table carries the columns of its row struct and one more
  boolean, which stands for the conditions of the fetch query on columns this program
  never writes (archive type and creation date for \<^verbatim>\<open>bulk\<close>; ban flag and contract end for
  \<^verbatim>\<open>partner\<close> and \<^verbatim>\<open>client\<close>), taken as fixed during a run.
\<close>

record bulk_rec =
  bulk_row :: BulkRow
  bulk_selected :: bool

record partner_rec =
  partner_row :: PartnerRow
  partner_selected :: bool

record client_rec =
  client_row :: ClientRow
  client_selected :: bool

text \<open>The statements the program sends, with their arguments.\<close>

datatype stmt =
    SelectBulk int nat
  | UpdateBulk int string
  | SelectPartner int nat
  | UpdatePartner int string
  | SelectClient int string nat
  | UpdateClient int "(string \<times> string) list"

fun is_select :: "stmt \<Rightarrow> bool" where
  "is_select (SelectBulk _ _) = True"
| "is_select (SelectPartner _ _) = True"
| "is_select (SelectClient _ _ _) = True"
| "is_select _ = False"

datatype error = ErrFetch | ErrUpdateDB | ErrMarshal

datatype tbl = BULK | PARTNER | CLIENT

text \<open>The lines written through package \<^verbatim>\<open>log\<close>, by what they report.\<close>

datatype logline =
    LogStart tbl
  | LogNoMoreRows tbl int
  | LogBatch tbl nat nat int int
  | LogBulkDryRun int string string
  | LogBulkOK int string string
  | LogPartnerWarnInvalidJSON int
  | LogPartnerDryRun int string string
  | LogPartnerOK int
  | LogClientDryRun int "(string \<times> string) list"
  | LogClientOK int "string list"
  | LogRowError tbl int error
  | LogSummary tbl nat nat nat

text \<open>
  The world: the three tables, every statement sent so far (\<^verbatim>\<open>issued\<close>), the log, and
  two failure schedules.  The \<open>n\<close>-th SELECT of a run fails when \<open>n\<close> is in
  \<^verbatim>\<open>fetch_faults\<close>, the \<open>n\<close>-th UPDATE when \<open>n\<close> is in \<^verbatim>\<open>exec_faults\<close> (counted from 0);
  a statement that fails changes no table.  \<^verbatim>\<open>sql_LIKE pattern text\<close> is how the store
  evaluates \<^verbatim>\<open>text LIKE pattern\<close>, which depends on the collation of its columns.
\<close>

record world =
  bulk_table :: "bulk_rec list"
  partner_table :: "partner_rec list"
  client_table :: "client_rec list"
  issued :: "stmt list"
  logged :: "logline list"
  fetch_faults :: "nat list"
  exec_faults :: "nat list"
  sql_LIKE :: "string \<Rightarrow> string \<Rightarrow> bool"

definition log_Printf :: "world \<Rightarrow> logline \<Rightarrow> world" where
  "log_Printf w l = w\<lparr>logged := logged w @ [l]\<rparr>"

definition send :: "world \<Rightarrow> stmt \<Rightarrow> world" where
  "send w st = w\<lparr>issued := issued w @ [st]\<rparr>"

definition select_fails :: "world \<Rightarrow> bool" where
  "select_fails w = (length (filter is_select (issued w)) \<in> set (fetch_faults w))"

definition exec_fails :: "world \<Rightarrow> bool" where
  "exec_fails w = (length (filter (\<lambda>st. \<not> is_select st) (issued w)) \<in> set (exec_faults w))"

section \<open>BULK: remove tagging in archive_file\<close>

text \<open>\<^verbatim>\<open>fetchBulkBatch\<close> (main.go, lines 170-190): the rows with \<^verbatim>\<open>id > lastID\<close> that pass the
  filter, in ascending order of \<^verbatim>\<open>id\<close>, at most \<^verbatim>\<open>limit\<close> of them.\<close>

definition bulk_matches :: "bulk_rec \<Rightarrow> bool" where
  "bulk_matches r =
     (bulk_selected r \<and> ArchiveFile (bulk_row r) \<noteq> None \<and> ArchiveFile (bulk_row r) \<noteq> Some [])"

definition fetchBulkBatch :: "world \<Rightarrow> int \<Rightarrow> nat \<Rightarrow> world \<times> BulkRow list option" where
  "fetchBulkBatch w last_ID limit =
     (if select_fails w then (send w (SelectBulk last_ID limit), None)
      else (send w (SelectBulk last_ID limit),
            Some (take limit (sort_key ID
                    (map bulk_row (filter (\<lambda>r. last_ID < ID (bulk_row r) \<and> bulk_matches r)
                                          (bulk_table w)))))))"

text \<open>\<^verbatim>\<open>updateBulkArchiveFile\<close> (lines 226-234); the boolean result tells whether
  the statement failed.\<close>

definition updateBulkArchiveFile :: "world \<Rightarrow> int \<Rightarrow> string \<Rightarrow> world \<times> bool" where
  "updateBulkArchiveFile w i newURL =
     (if exec_fails w then (send w (UpdateBulk i newURL), True)
      else ((send w (UpdateBulk i newURL))
              \<lparr>bulk_table :=
                 map (\<lambda>r. if ID (bulk_row r) = i
                          then r\<lparr>bulk_row := (bulk_row r)\<lparr>ArchiveFile := Some newURL\<rparr>\<rparr> else r)
                     (bulk_table w)\<rparr>, False))"

text \<open>\<^verbatim>\<open>processBulkRowRemoveTag\<close> (lines 192-224); the result after the world is
  \<^verbatim>\<open>(updated, skipped, err)\<close>.\<close>

definition processBulkRowRemoveTag ::
  "config \<Rightarrow> world \<Rightarrow> BulkRow \<Rightarrow> bool \<Rightarrow> world \<times> bool \<times> bool \<times> error option" where
  "processBulkRowRemoveTag cfg w row dryRun =
     (case ArchiveFile row of
        None \<Rightarrow> (w, False, True, None)
      | Some s \<Rightarrow>
          let raw = strings_TrimSpace s in
          if raw = [] then (w, False, True, None)
          else
            (case removeTagParamsFromURL raw of
               (newURL, changed) \<Rightarrow>
                 if \<not> changed then (w, False, True, None)
                 else
                   (let newURL = normalizeBulkArchiveURL (bulkS3Prefix cfg) newURL in
                    if dryRun
                    then (log_Printf w (LogBulkDryRun (ID row) raw newURL), False, False, None)
                    else
                      (case updateBulkArchiveFile w (ID row) newURL of
                         (w', failed) \<Rightarrow>
                           if failed then (w', False, False, Some ErrUpdateDB)
                           else (log_Printf w' (LogBulkOK (ID row) raw newURL),
                                 True, False, None)))))"

text \<open>
  The local variables of a migrator's loop.  \<^verbatim>\<open>visited\<close> is not in the source: it lists
  the rows handed to the row function, in that order (the source keeps only their
  number, \<^verbatim>\<open>totalRows\<close>).  The counters are Go \<^verbatim>\<open>int\<close>s that only count rows of a table;
  they are modelled as \<^typ>\<open>nat\<close>.
\<close>

record 'r counters =
  lastID :: int
  batchNum :: nat
  totalRows :: nat
  totalUpdated :: nat
  totalSkipped :: nat
  visited :: "'r list"

definition counters0 :: "'r counters" where
  "counters0 = \<lparr>lastID = 0, batchNum = 0, totalRows = 0, totalUpdated = 0, totalSkipped = 0,
                 visited = []\<rparr>"

text \<open>What the body of \<^verbatim>\<open>for _, r := range rows\<close> does with the result of the row
  function (lines 149-162, and the same lines of the other two migrators).\<close>

definition count_row ::
  "tbl \<Rightarrow> int \<Rightarrow> world \<times> bool \<times> bool \<times> error option \<Rightarrow> 'r counters
   \<Rightarrow> world \<times> 'r counters" where
  "count_row t i res c =
     (case res of
        (w, updated, skipped, err) \<Rightarrow>
          (case err of
             Some e \<Rightarrow> (log_Printf w (LogRowError t i e), c)
           | None \<Rightarrow>
               (w, c\<lparr>totalUpdated := (if updated then totalUpdated c + 1 else totalUpdated c),
                     totalSkipped := (if skipped then totalSkipped c + 1 else totalSkipped c)\<rparr>)))"

definition enter_row :: "int \<Rightarrow> 'r \<Rightarrow> 'r counters \<Rightarrow> 'r counters" where
  "enter_row i r c = c\<lparr>totalRows := totalRows c + 1, lastID := i, visited := visited c @ [r]\<rparr>"

fun bulk_rows ::
  "config \<Rightarrow> bool \<Rightarrow> BulkRow list \<Rightarrow> world \<times> BulkRow counters
   \<Rightarrow> world \<times> BulkRow counters" where
  "bulk_rows cfg dryRun [] wc = wc"
| "bulk_rows cfg dryRun (r # rs) (w, c) =
     bulk_rows cfg dryRun rs
       (count_row BULK (ID r) (processBulkRowRemoveTag cfg w r dryRun) (enter_row (ID r) r c))"

text \<open>
  The loop of \<^verbatim>\<open>migrateBulkRemoveTag\<close> (lines 134-164) and the function itself.  The
  loop ends on a fetch that fails or returns no row.  The two lemmas before the
  termination proof say why it ends: a row function changes no identifier of the table,
  and after a page the cursor stands on an identifier of the table beyond the old one.
\<close>

function migrateBulk_loop ::
  "config \<Rightarrow> bool \<Rightarrow> nat \<Rightarrow> world \<Rightarrow> BulkRow counters
   \<Rightarrow> world \<times> error option \<times> BulkRow counters" where
  "migrateBulk_loop cfg dryRun batchSize w c =
     (case fetchBulkBatch w (lastID c) batchSize of
        (w1, None) \<Rightarrow> (w1, Some ErrFetch, c)
      | (w1, Some rows) \<Rightarrow>
          if rows = [] then (log_Printf w1 (LogNoMoreRows BULK (lastID c)), None, c)
          else
            (case bulk_rows cfg dryRun rows
                    (log_Printf w1 (LogBatch BULK (batchNum c + 1) (length rows)
                                      (ID (hd rows)) (ID (last rows))),
                     c\<lparr>batchNum := batchNum c + 1\<rparr>) of
               (w2, c2) \<Rightarrow> migrateBulk_loop cfg dryRun batchSize w2 c2))"
  by pat_completeness auto

definition bulk_ids :: "world \<Rightarrow> int list" where
  "bulk_ids w = map (\<lambda>r. ID (bulk_row r)) (bulk_table w)"

definition beyond :: "int \<Rightarrow> int list \<Rightarrow> nat" where
  "beyond l xs = length (filter (\<lambda>i. l < i) xs)"

lemma beyond_mono: "l \<le> m \<Longrightarrow> beyond m xs \<le> beyond l xs"
  unfolding beyond_def by (induction xs) auto

lemma beyond_less: "l < m \<Longrightarrow> m \<in> set xs \<Longrightarrow> beyond m xs < beyond l xs"
proof (induction xs)
  case Nil
  then show ?case by simp
next
  case (Cons x xs)
  show ?case
  proof (cases "m \<in> set xs")
    case True
    with Cons have "beyond m xs < beyond l xs" by simp
    with Cons.prems(1) show ?thesis by (auto simp: beyond_def)
  next
    case False
    with Cons.prems have "x = m" by simp
    with Cons.prems(1) beyond_mono [of l m xs] show ?thesis by (simp add: beyond_def)
  qed
qed

lemma fetchBulkBatch_table:
  "fetchBulkBatch w l n = (w1, res) \<Longrightarrow> bulk_ids w1 = bulk_ids w"
  by (auto simp: fetchBulkBatch_def bulk_ids_def send_def split: if_splits)

lemma fetchBulkBatch_rows:
  assumes "fetchBulkBatch w l n = (w1, Some rows)" and "r \<in> set rows"
  shows "l < ID r \<and> ID r \<in> set (bulk_ids w)"
proof -
  from assms(1) have "rows = take n (sort_key ID (map bulk_row
                 (filter (\<lambda>r. l < ID (bulk_row r) \<and> bulk_matches r) (bulk_table w))))"
    by (auto simp: fetchBulkBatch_def split: if_splits)
  with assms(2) have "r \<in> set (sort_key ID (map bulk_row
                 (filter (\<lambda>r. l < ID (bulk_row r) \<and> bulk_matches r) (bulk_table w))))"
    by (auto dest: in_set_takeD)
  then show ?thesis
    by (auto simp: bulk_ids_def)
qed

lemma updateBulkArchiveFile_ids:
  "bulk_ids (fst (updateBulkArchiveFile w i u)) = bulk_ids w"
  by (simp add: updateBulkArchiveFile_def bulk_ids_def send_def comp_def)

lemma log_Printf_bulk_ids [simp]: "bulk_ids (log_Printf w l) = bulk_ids w"
  by (simp add: bulk_ids_def log_Printf_def)

lemma processBulkRow_ids:
  "bulk_ids (fst (processBulkRowRemoveTag cfg w r dryRun)) = bulk_ids w"
proof (cases "ArchiveFile r")
  case None
  then show ?thesis by (simp add: processBulkRowRemoveTag_def)
next
  case (Some s)
  obtain newURL changed where rt: "removeTagParamsFromURL (strings_TrimSpace s) = (newURL, changed)"
    by (cases "removeTagParamsFromURL (strings_TrimSpace s)")
  obtain w' failed where up:
    "updateBulkArchiveFile w (ID r) (normalizeBulkArchiveURL (bulkS3Prefix cfg) newURL) = (w', failed)"
    by (cases "updateBulkArchiveFile w (ID r) (normalizeBulkArchiveURL (bulkS3Prefix cfg) newURL)")
  have "bulk_ids w' = bulk_ids w"
    using updateBulkArchiveFile_ids [of w "ID r" "normalizeBulkArchiveURL (bulkS3Prefix cfg) newURL"] up
    by simp
  then show ?thesis
    using Some rt up by (simp add: processBulkRowRemoveTag_def Let_def)
qed

lemma count_row_bulk_ids:
  "bulk_ids (fst (count_row t i res c)) = bulk_ids (fst res)"
  by (cases res) (auto simp: count_row_def split: option.splits)

lemma count_row_lastID:
  "lastID (snd (count_row t i res c)) = lastID c"
  by (cases res) (auto simp: count_row_def split: option.splits)

lemma bulk_rows_ids:
  "bulk_ids (fst (bulk_rows cfg dryRun rows (w, c))) = bulk_ids w"
proof (induction rows arbitrary: w c)
  case Nil
  then show ?case by simp
next
  case (Cons r rows)
  obtain w' c' where step:
    "count_row BULK (ID r) (processBulkRowRemoveTag cfg w r dryRun) (enter_row (ID r) r c) = (w', c')"
    by (cases "count_row BULK (ID r) (processBulkRowRemoveTag cfg w r dryRun) (enter_row (ID r) r c)")
  have "bulk_ids w' = bulk_ids w"
    using count_row_bulk_ids [of BULK "ID r" "processBulkRowRemoveTag cfg w r dryRun"
        "enter_row (ID r) r c"] step processBulkRow_ids [of cfg w r dryRun] by simp
  then show ?case
    using Cons.IH [of w' c'] step by simp
qed

lemma bulk_rows_lastID:
  "rows \<noteq> [] \<Longrightarrow> lastID (snd (bulk_rows cfg dryRun rows (w, c))) = ID (last rows)"
proof (induction rows arbitrary: w c)
  case Nil
  then show ?case by simp
next
  case (Cons r rows)
  obtain w' c' where step:
    "count_row BULK (ID r) (processBulkRowRemoveTag cfg w r dryRun) (enter_row (ID r) r c) = (w', c')"
    by (cases "count_row BULK (ID r) (processBulkRowRemoveTag cfg w r dryRun) (enter_row (ID r) r c)")
  have "lastID c' = ID r"
    using count_row_lastID [of BULK "ID r" "processBulkRowRemoveTag cfg w r dryRun"
        "enter_row (ID r) r c"] step by (simp add: enter_row_def)
  then show ?case
    using Cons.IH [of w' c'] step by (cases rows) auto
qed

termination migrateBulk_loop
proof (relation "measure (\<lambda>(cfg, dryRun, batchSize, w, c). beyond (lastID c) (bulk_ids w))")
  show "wf (measure (\<lambda>(cfg :: config, dryRun :: bool, batchSize :: nat, w,
                         c :: BulkRow counters). beyond (lastID c) (bulk_ids w)))"
    by simp
next
  fix cfg dryRun batchSize w c x1 x2 rows w2 c2
  assume fetch: "(x1, x2) = fetchBulkBatch w (lastID c) batchSize"
    and some: "x2 = Some rows" and ne: "rows \<noteq> []"
    and p: "(w2, c2) = bulk_rows cfg dryRun rows
                  (log_Printf x1 (LogBatch BULK (batchNum c + 1) (length rows)
                                    (ID (hd rows)) (ID (last rows))),
                   c\<lparr>batchNum := batchNum c + 1\<rparr>)"
  let ?w = "log_Printf x1 (LogBatch BULK (batchNum c + 1) (length rows)
                             (ID (hd rows)) (ID (last rows)))"
  let ?c = "c\<lparr>batchNum := batchNum c + 1\<rparr>"
  from fetch some have f: "fetchBulkBatch w (lastID c) batchSize = (x1, Some rows)"
    by simp
  have "bulk_ids w2 = bulk_ids ?w"
    using bulk_rows_ids [of cfg dryRun rows ?w ?c] p by (metis fst_conv)
  then have ids: "bulk_ids w2 = bulk_ids w"
    using fetchBulkBatch_table [OF f] by simp
  have last: "lastID c2 = ID (last rows)"
    using bulk_rows_lastID [OF ne, of cfg dryRun ?w ?c] p by (metis snd_conv)
  have "last rows \<in> set rows"
    using ne by simp
  from fetchBulkBatch_rows [OF f this]
  have "beyond (ID (last rows)) (bulk_ids w) < beyond (lastID c) (bulk_ids w)"
    by (simp add: beyond_less)
  then show "((cfg, dryRun, batchSize, w2, c2), (cfg, dryRun, batchSize, w, c))
         \<in> measure (\<lambda>(cfg, dryRun, batchSize, w, c). beyond (lastID c) (bulk_ids w))"
    using ids last by simp
qed

definition migrateBulkRemoveTag ::
  "config \<Rightarrow> world \<Rightarrow> bool \<Rightarrow> nat \<Rightarrow> world \<times> error option \<times> BulkRow counters" where
  "migrateBulkRemoveTag cfg w dryRun batchSize =
     (case migrateBulk_loop cfg dryRun batchSize (log_Printf w (LogStart BULK)) counters0 of
        (w', Some e, c) \<Rightarrow> (w', Some e, c)
      | (w', None, c) \<Rightarrow>
          (log_Printf w' (LogSummary BULK (totalRows c) (totalUpdated c) (totalSkipped c)),
           None, c))"

section \<open>PARTNER: remove tagging in meta.partner_pos_attach_files\<close>

definition partner_ids :: "world \<Rightarrow> int list" where
  "partner_ids w = map (\<lambda>r. PartnerID (partner_row r)) (partner_table w)"

text \<open>\<^verbatim>\<open>fetchPartnerBatch\<close> (lines 313-331).\<close>

definition fetchPartnerBatch :: "world \<Rightarrow> int \<Rightarrow> nat \<Rightarrow> world \<times> PartnerRow list option" where
  "fetchPartnerBatch w last_ID limit =
     (if select_fails w then (send w (SelectPartner last_ID limit), None)
      else (send w (SelectPartner last_ID limit),
            Some (take limit (sort_key PartnerID
                    (map partner_row
                       (filter (\<lambda>r. last_ID < PartnerID (partner_row r) \<and> partner_selected r)
                               (partner_table w)))))))"

text \<open>\<^verbatim>\<open>updatePartnerMeta\<close> (lines 407-415).\<close>

definition updatePartnerMeta :: "world \<Rightarrow> int \<Rightarrow> string \<Rightarrow> world \<times> bool" where
  "updatePartnerMeta w i newMeta =
     (if exec_fails w then (send w (UpdatePartner i newMeta), True)
      else ((send w (UpdatePartner i newMeta))
              \<lparr>partner_table :=
                 map (\<lambda>r. if PartnerID (partner_row r) = i
                          then r\<lparr>partner_row := (partner_row r)\<lparr>Meta := Some newMeta\<rparr>\<rparr> else r)
                     (partner_table w)\<rparr>, False))"

text \<open>The loop over \<^verbatim>\<open>files\<close> (lines 364-380); the pair carried along is
  \<^verbatim>\<open>(newFiles, changed)\<close>.\<close>

fun clean_files :: "'n json list \<Rightarrow> 'n json list \<times> bool \<Rightarrow> 'n json list \<times> bool" where
  "clean_files [] acc = acc"
| "clean_files (item # rest) (newFiles, changed) =
     (case item of
        JString s \<Rightarrow>
          (case removeTagParamsFromURL s of
             (newURL, modified) \<Rightarrow>
               if modified then clean_files rest (newFiles @ [JString newURL], True)
               else clean_files rest (newFiles @ [JString s], changed))
      | _ \<Rightarrow> clean_files rest (newFiles @ [item], changed))"

text \<open>\<^verbatim>\<open>processPartnerRowRemoveTag\<close> (lines 333-405).\<close>

definition processPartnerRowRemoveTag ::
  "'n json_codec \<Rightarrow> world \<Rightarrow> PartnerRow \<Rightarrow> bool \<Rightarrow> world \<times> bool \<times> bool \<times> error option" where
  "processPartnerRowRemoveTag codec w row dryRun =
     (case Meta row of
        None \<Rightarrow> (w, False, True, None)
      | Some s \<Rightarrow>
          let rawMeta = strings_TrimSpace s in
          if rawMeta = [] then (w, False, True, None)
          else
            (case json_Unmarshal codec rawMeta of
               None \<Rightarrow>
                 (log_Printf w (LogPartnerWarnInvalidJSON (PartnerID row)), False, True, None)
             | Some metaMap \<Rightarrow>
                 (case map_of metaMap ''partner_pos_attach_files'' of
                    Some (JArray files) \<Rightarrow>
                      if length files = 0 then (w, False, True, None)
                      else
                        (case clean_files files ([], False) of
                           (newFiles, changed) \<Rightarrow>
                             if \<not> changed then (w, False, True, None)
                             else
                               (case json_Marshal codec
                                       (AList.update ''partner_pos_attach_files''
                                          (JArray newFiles) metaMap) of
                                  None \<Rightarrow> (w, False, False, Some ErrMarshal)
                                | Some newMeta \<Rightarrow>
                                    if dryRun
                                    then (log_Printf w
                                            (LogPartnerDryRun (PartnerID row) rawMeta newMeta),
                                          False, False, None)
                                    else
                                      (case updatePartnerMeta w (PartnerID row) newMeta of
                                         (w', failed) \<Rightarrow>
                                           if failed then (w', False, False, Some ErrUpdateDB)
                                           else (log_Printf w' (LogPartnerOK (PartnerID row)),
                                                 True, False, None))))
                  | _ \<Rightarrow> (w, False, True, None))))"

fun partner_rows ::
  "'n json_codec \<Rightarrow> bool \<Rightarrow> PartnerRow list \<Rightarrow> world \<times> PartnerRow counters
   \<Rightarrow> world \<times> PartnerRow counters" where
  "partner_rows codec dryRun [] wc = wc"
| "partner_rows codec dryRun (r # rs) (w, c) =
     partner_rows codec dryRun rs
       (count_row PARTNER (PartnerID r) (processPartnerRowRemoveTag codec w r dryRun)
          (enter_row (PartnerID r) r c))"

text \<open>The loop of \<^verbatim>\<open>migratePartnerRemoveTag\<close> (lines 277-307) and the function itself.\<close>

function migratePartner_loop ::
  "'n json_codec \<Rightarrow> bool \<Rightarrow> nat \<Rightarrow> world \<Rightarrow> PartnerRow counters
   \<Rightarrow> world \<times> error option \<times> PartnerRow counters" where
  "migratePartner_loop codec dryRun batchSize w c =
     (case fetchPartnerBatch w (lastID c) batchSize of
        (w1, None) \<Rightarrow> (w1, Some ErrFetch, c)
      | (w1, Some rows) \<Rightarrow>
          if rows = [] then (log_Printf w1 (LogNoMoreRows PARTNER (lastID c)), None, c)
          else
            (case partner_rows codec dryRun rows
                    (log_Printf w1 (LogBatch PARTNER (batchNum c + 1) (length rows)
                                      (PartnerID (hd rows)) (PartnerID (last rows))),
                     c\<lparr>batchNum := batchNum c + 1\<rparr>) of
               (w2, c2) \<Rightarrow> migratePartner_loop codec dryRun batchSize w2 c2))"
  by pat_completeness auto

lemma fetchPartnerBatch_table:
  "fetchPartnerBatch w l n = (w1, res) \<Longrightarrow> partner_ids w1 = partner_ids w"
  by (auto simp: fetchPartnerBatch_def partner_ids_def send_def split: if_splits)

lemma fetchPartnerBatch_rows:
  assumes "fetchPartnerBatch w l n = (w1, Some rows)" and "r \<in> set rows"
  shows "l < PartnerID r \<and> PartnerID r \<in> set (partner_ids w)"
proof -
  from assms(1) have "rows = take n (sort_key PartnerID (map partner_row
          (filter (\<lambda>r. l < PartnerID (partner_row r) \<and> partner_selected r) (partner_table w))))"
    by (auto simp: fetchPartnerBatch_def split: if_splits)
  with assms(2) have "r \<in> set (sort_key PartnerID (map partner_row
          (filter (\<lambda>r. l < PartnerID (partner_row r) \<and> partner_selected r) (partner_table w))))"
    by (auto dest: in_set_takeD)
  then show ?thesis
    by (auto simp: partner_ids_def)
qed

lemma updatePartnerMeta_ids:
  "partner_ids (fst (updatePartnerMeta w i m)) = partner_ids w"
  by (simp add: updatePartnerMeta_def partner_ids_def send_def comp_def)

lemma log_Printf_partner_ids [simp]: "partner_ids (log_Printf w l) = partner_ids w"
  by (simp add: partner_ids_def log_Printf_def)

lemma processPartnerRow_ids:
  "partner_ids (fst (processPartnerRowRemoveTag codec w r dryRun)) = partner_ids w"
proof -
  have "partner_ids (fst (updatePartnerMeta w i m)) = partner_ids w" for i m
    by (rule updatePartnerMeta_ids)
  then have up: "updatePartnerMeta w i m = (w', failed) \<Longrightarrow> partner_ids w' = partner_ids w"
    for i m w' failed
    by (metis fst_conv)
  show ?thesis
    by (auto simp: processPartnerRowRemoveTag_def Let_def up
          split: option.splits json.splits prod.splits)
qed

lemma count_row_partner_ids:
  "partner_ids (fst (count_row t i res c)) = partner_ids (fst res)"
  by (cases res) (auto simp: count_row_def split: option.splits)

lemma partner_rows_ids:
  "partner_ids (fst (partner_rows codec dryRun rows (w, c))) = partner_ids w"
proof (induction rows arbitrary: w c)
  case Nil
  then show ?case by simp
next
  case (Cons r rows)
  obtain w' c' where step:
    "count_row PARTNER (PartnerID r) (processPartnerRowRemoveTag codec w r dryRun)
       (enter_row (PartnerID r) r c) = (w', c')"
    by (cases "count_row PARTNER (PartnerID r) (processPartnerRowRemoveTag codec w r dryRun)
       (enter_row (PartnerID r) r c)")
  have "partner_ids w' = partner_ids w"
    using count_row_partner_ids [of PARTNER "PartnerID r"
        "processPartnerRowRemoveTag codec w r dryRun" "enter_row (PartnerID r) r c"]
      step processPartnerRow_ids [of codec w r dryRun] by simp
  then show ?case
    using Cons.IH [of w' c'] step by simp
qed

lemma partner_rows_lastID:
  "rows \<noteq> [] \<Longrightarrow>
   lastID (snd (partner_rows codec dryRun rows (w, c))) = PartnerID (last rows)"
proof (induction rows arbitrary: w c)
  case Nil
  then show ?case by simp
next
  case (Cons r rows)
  obtain w' c' where step:
    "count_row PARTNER (PartnerID r) (processPartnerRowRemoveTag codec w r dryRun)
       (enter_row (PartnerID r) r c) = (w', c')"
    by (cases "count_row PARTNER (PartnerID r) (processPartnerRowRemoveTag codec w r dryRun)
       (enter_row (PartnerID r) r c)")
  have "lastID c' = PartnerID r"
    using count_row_lastID [of PARTNER "PartnerID r"
        "processPartnerRowRemoveTag codec w r dryRun" "enter_row (PartnerID r) r c"] step
    by (simp add: enter_row_def)
  then show ?case
    using Cons.IH [of w' c'] step by (cases rows) auto
qed

termination migratePartner_loop
proof (relation "measure (\<lambda>(codec, dryRun, batchSize, w, c). beyond (lastID c) (partner_ids w))")
  show "wf (measure (\<lambda>(codec :: 'a json_codec, dryRun :: bool, batchSize :: nat, w,
                         c :: PartnerRow counters). beyond (lastID c) (partner_ids w)))"
    by simp
next
  fix codec :: "'a json_codec" and dryRun batchSize w c x1 x2 rows w2 c2
  assume fetch: "(x1, x2) = fetchPartnerBatch w (lastID c) batchSize"
    and some: "x2 = Some rows" and ne: "rows \<noteq> []"
    and p: "(w2, c2) = partner_rows codec dryRun rows
                  (log_Printf x1 (LogBatch PARTNER (batchNum c + 1) (length rows)
                                    (PartnerID (hd rows)) (PartnerID (last rows))),
                   c\<lparr>batchNum := batchNum c + 1\<rparr>)"
  let ?w = "log_Printf x1 (LogBatch PARTNER (batchNum c + 1) (length rows)
                             (PartnerID (hd rows)) (PartnerID (last rows)))"
  let ?c = "c\<lparr>batchNum := batchNum c + 1\<rparr>"
  from fetch some have f: "fetchPartnerBatch w (lastID c) batchSize = (x1, Some rows)"
    by simp
  have "partner_ids w2 = partner_ids ?w"
    using partner_rows_ids [of codec dryRun rows ?w ?c] p by (metis fst_conv)
  then have ids: "partner_ids w2 = partner_ids w"
    using fetchPartnerBatch_table [OF f] by simp
  have last: "lastID c2 = PartnerID (last rows)"
    using partner_rows_lastID [OF ne, of codec dryRun ?w ?c] p by (metis snd_conv)
  have "last rows \<in> set rows"
    using ne by simp
  from fetchPartnerBatch_rows [OF f this]
  have "beyond (PartnerID (last rows)) (partner_ids w) < beyond (lastID c) (partner_ids w)"
    by (simp add: beyond_less)
  then show "((codec, dryRun, batchSize, w2, c2), (codec, dryRun, batchSize, w, c))
         \<in> measure (\<lambda>(codec, dryRun, batchSize, w, c). beyond (lastID c) (partner_ids w))"
    using ids last by simp
qed

definition migratePartnerRemoveTag ::
  "'n json_codec \<Rightarrow> world \<Rightarrow> bool \<Rightarrow> nat
   \<Rightarrow> world \<times> error option \<times> PartnerRow counters" where
  "migratePartnerRemoveTag codec w dryRun batchSize =
     (case migratePartner_loop codec dryRun batchSize (log_Printf w (LogStart PARTNER))
             counters0 of
        (w', Some e, c) \<Rightarrow> (w', Some e, c)
      | (w', None, c) \<Rightarrow>
          (log_Printf w' (LogSummary PARTNER (totalRows c) (totalUpdated c) (totalSkipped c)),
           None, c))"

section \<open>CLIENT: remove tag from attachment URLs\<close>

definition client_ids :: "world \<Rightarrow> int list" where
  "client_ids w = map (\<lambda>r. ClientID (client_row r)) (client_table w)"

text \<open>\<^verbatim>\<open>fetchClientBatch\<close> (lines 470-493).  A NULL column matches no pattern.\<close>

definition client_like :: "world \<Rightarrow> string \<Rightarrow> string option \<Rightarrow> bool" where
  "client_like w likePrefix col = (case col of None \<Rightarrow> False | Some s \<Rightarrow> sql_LIKE w likePrefix s)"

definition fetchClientBatch ::
  "world \<Rightarrow> int \<Rightarrow> nat \<Rightarrow> string \<Rightarrow> world \<times> ClientRow list option" where
  "fetchClientBatch w last_ID limit likePrefix =
     (if select_fails w then (send w (SelectClient last_ID likePrefix limit), None)
      else (send w (SelectClient last_ID likePrefix limit),
            Some (take limit (sort_key ClientID
                    (map client_row
                       (filter (\<lambda>r. last_ID < ClientID (client_row r)
                                    \<and> (client_like w likePrefix (ClientContractAttachment (client_row r))
                                        \<or> client_like w likePrefix (ClientTaxAttachment (client_row r))
                                        \<or> client_like w likePrefix (ClientPksAttachment (client_row r)))
                                    \<and> client_selected r)
                               (client_table w)))))))"

text \<open>
  \<^verbatim>\<open>applyClientUpdates\<close> (lines 542-560).  \<^verbatim>\<open>updates\<close> is a Go map from column name to
  new value; it is modelled as an association list with one entry per column.  The order
  of the assignments in the statement is the iteration order of the map, which Go leaves
  open; the list of \<^term>\<open>UpdateClient\<close> stands for the set of its assignments.
\<close>

definition set_client_col :: "string \<Rightarrow> string \<Rightarrow> ClientRow \<Rightarrow> ClientRow" where
  "set_client_col col v r =
     (if col = ''client_contract_attachment_url'' then r\<lparr>ClientContractAttachment := Some v\<rparr>
      else if col = ''client_tax_attachment'' then r\<lparr>ClientTaxAttachment := Some v\<rparr>
      else if col = ''client_pks_attachment'' then r\<lparr>ClientPksAttachment := Some v\<rparr>
      else r)"

definition applyClientUpdates ::
  "world \<Rightarrow> int \<Rightarrow> (string \<times> string) list \<Rightarrow> world \<times> bool" where
  "applyClientUpdates w clientID updates =
     (if length updates = 0 then (w, False)
      else if exec_fails w then (send w (UpdateClient clientID updates), True)
      else ((send w (UpdateClient clientID updates))
              \<lparr>client_table :=
                 map (\<lambda>r. if ClientID (client_row r) = clientID
                          then r\<lparr>client_row :=
                                   fold (\<lambda>(col, v). set_client_col col v) updates (client_row r)\<rparr>
                          else r)
                     (client_table w)\<rparr>, False))"

text \<open>The closure \<^verbatim>\<open>handleCol\<close> (lines 503-519), with the map it writes to as an
  argument and a result.\<close>

definition handleCol ::
  "config \<Rightarrow> (string \<times> string) list \<Rightarrow> string \<Rightarrow> string option \<Rightarrow> (string \<times> string) list" where
  "handleCol cfg updates col v =
     (case v of
        None \<Rightarrow> updates
      | Some s \<Rightarrow>
          let raw = strings_TrimSpace s in
          if raw = [] then updates
          else if \<not> strings_HasPrefix raw (hydraSignPrefix cfg) then updates
          else
            (case removeTagParamsFromURL raw of
               (newURL, changed) \<Rightarrow>
                 if changed then AList.update col newURL updates else updates))"

definition mapKeys :: "(string \<times> string) list \<Rightarrow> string list" where
  "mapKeys m = map fst m"

text \<open>\<^verbatim>\<open>processClientRowRemoveTag\<close> (lines 495-540).\<close>

definition client_updates :: "config \<Rightarrow> ClientRow \<Rightarrow> (string \<times> string) list" where
  "client_updates cfg row =
     handleCol cfg
       (handleCol cfg
          (handleCol cfg [] ''client_contract_attachment_url'' (ClientContractAttachment row))
          ''client_tax_attachment'' (ClientTaxAttachment row))
       ''client_pks_attachment'' (ClientPksAttachment row)"

definition processClientRowRemoveTag ::
  "config \<Rightarrow> world \<Rightarrow> ClientRow \<Rightarrow> bool \<Rightarrow> world \<times> bool \<times> bool \<times> error option" where
  "processClientRowRemoveTag cfg w row dryRun =
     (let updates = client_updates cfg row in
      if length updates = 0 then (w, False, True, None)
      else if dryRun
      then (log_Printf w (LogClientDryRun (ClientID row) updates), False, False, None)
      else
        (case applyClientUpdates w (ClientID row) updates of
           (w', failed) \<Rightarrow>
             if failed then (w', False, False, Some ErrUpdateDB)
             else (log_Printf w' (LogClientOK (ClientID row) (mapKeys updates)),
                   True, False, None)))"

fun client_rows ::
  "config \<Rightarrow> bool \<Rightarrow> ClientRow list \<Rightarrow> world \<times> ClientRow counters
   \<Rightarrow> world \<times> ClientRow counters" where
  "client_rows cfg dryRun [] wc = wc"
| "client_rows cfg dryRun (r # rs) (w, c) =
     client_rows cfg dryRun rs
       (count_row CLIENT (ClientID r) (processClientRowRemoveTag cfg w r dryRun)
          (enter_row (ClientID r) r c))"

text \<open>The loop of \<^verbatim>\<open>migrateClientRemoveTag\<close> (lines 434-464) and the function itself.\<close>

function migrateClient_loop ::
  "config \<Rightarrow> bool \<Rightarrow> nat \<Rightarrow> string \<Rightarrow> world \<Rightarrow> ClientRow counters
   \<Rightarrow> world \<times> error option \<times> ClientRow counters" where
  "migrateClient_loop cfg dryRun batchSize like w c =
     (case fetchClientBatch w (lastID c) batchSize like of
        (w1, None) \<Rightarrow> (w1, Some ErrFetch, c)
      | (w1, Some rows) \<Rightarrow>
          if rows = [] then (log_Printf w1 (LogNoMoreRows CLIENT (lastID c)), None, c)
          else
            (case client_rows cfg dryRun rows
                    (log_Printf w1 (LogBatch CLIENT (batchNum c + 1) (length rows)
                                      (ClientID (hd rows)) (ClientID (last rows))),
                     c\<lparr>batchNum := batchNum c + 1\<rparr>) of
               (w2, c2) \<Rightarrow> migrateClient_loop cfg dryRun batchSize like w2 c2))"
  by pat_completeness auto

lemma fetchClientBatch_table:
  "fetchClientBatch w l n k = (w1, res) \<Longrightarrow> client_ids w1 = client_ids w"
  by (auto simp: fetchClientBatch_def client_ids_def send_def split: if_splits)

lemma fetchClientBatch_rows:
  assumes "fetchClientBatch w l n k = (w1, Some rows)" and "r \<in> set rows"
  shows "l < ClientID r \<and> ClientID r \<in> set (client_ids w)"
proof -
  from assms(1) obtain P where "rows = take n (sort_key ClientID (map client_row
          (filter (\<lambda>r. l < ClientID (client_row r) \<and> P r) (client_table w))))"
    by (auto simp: fetchClientBatch_def split: if_splits)
  with assms(2) have "r \<in> set (sort_key ClientID (map client_row
          (filter (\<lambda>r. l < ClientID (client_row r) \<and> P r) (client_table w))))"
    by (auto dest: in_set_takeD)
  then show ?thesis
    by (auto simp: client_ids_def)
qed

lemma set_client_col_ID [simp]: "ClientID (set_client_col col v r) = ClientID r"
  by (simp add: set_client_col_def)

lemma fold_set_client_col_ID [simp]:
  "ClientID (fold (\<lambda>(col, v). set_client_col col v) ups r) = ClientID r"
  by (induction ups arbitrary: r) auto

lemma applyClientUpdates_ids:
  "client_ids (fst (applyClientUpdates w i ups)) = client_ids w"
  by (simp add: applyClientUpdates_def client_ids_def send_def comp_def)

lemma log_Printf_client_ids [simp]: "client_ids (log_Printf w l) = client_ids w"
  by (simp add: client_ids_def log_Printf_def)

lemma processClientRow_ids:
  "client_ids (fst (processClientRowRemoveTag cfg w r dryRun)) = client_ids w"
proof -
  have "client_ids (fst (applyClientUpdates w i m)) = client_ids w" for i m
    by (rule applyClientUpdates_ids)
  then have up: "applyClientUpdates w i m = (w', failed) \<Longrightarrow> client_ids w' = client_ids w"
    for i m w' failed
    by (metis fst_conv)
  show ?thesis
    by (auto simp: processClientRowRemoveTag_def Let_def up split: prod.splits)
qed

lemma count_row_client_ids:
  "client_ids (fst (count_row t i res c)) = client_ids (fst res)"
  by (cases res) (auto simp: count_row_def split: option.splits)

lemma client_rows_ids:
  "client_ids (fst (client_rows cfg dryRun rows (w, c))) = client_ids w"
proof (induction rows arbitrary: w c)
  case Nil
  then show ?case by simp
next
  case (Cons r rows)
  obtain w' c' where step:
    "count_row CLIENT (ClientID r) (processClientRowRemoveTag cfg w r dryRun)
       (enter_row (ClientID r) r c) = (w', c')"
    by (cases "count_row CLIENT (ClientID r) (processClientRowRemoveTag cfg w r dryRun)
       (enter_row (ClientID r) r c)")
  have "client_ids w' = client_ids w"
    using count_row_client_ids [of CLIENT "ClientID r"
        "processClientRowRemoveTag cfg w r dryRun" "enter_row (ClientID r) r c"]
      step processClientRow_ids [of cfg w r dryRun] by simp
  then show ?case
    using Cons.IH [of w' c'] step by simp
qed

lemma client_rows_lastID:
  "rows \<noteq> [] \<Longrightarrow>
   lastID (snd (client_rows cfg dryRun rows (w, c))) = ClientID (last rows)"
proof (induction rows arbitrary: w c)
  case Nil
  then show ?case by simp
next
  case (Cons r rows)
  obtain w' c' where step:
    "count_row CLIENT (ClientID r) (processClientRowRemoveTag cfg w r dryRun)
       (enter_row (ClientID r) r c) = (w', c')"
    by (cases "count_row CLIENT (ClientID r) (processClientRowRemoveTag cfg w r dryRun)
       (enter_row (ClientID r) r c)")
  have "lastID c' = ClientID r"
    using count_row_lastID [of CLIENT "ClientID r"
        "processClientRowRemoveTag cfg w r dryRun" "enter_row (ClientID r) r c"] step
    by (simp add: enter_row_def)
  then show ?case
    using Cons.IH [of w' c'] step by (cases rows) auto
qed

termination migrateClient_loop
proof (relation "measure (\<lambda>(cfg, dryRun, batchSize, like, w, c).
                   beyond (lastID c) (client_ids w))")
  show "wf (measure (\<lambda>(cfg :: config, dryRun :: bool, batchSize :: nat, like :: string, w,
                         c :: ClientRow counters). beyond (lastID c) (client_ids w)))"
    by simp
next
  fix cfg dryRun batchSize like w c x1 x2 rows w2 c2
  assume fetch: "(x1, x2) = fetchClientBatch w (lastID c) batchSize like"
    and some: "x2 = Some rows" and ne: "rows \<noteq> []"
    and p: "(w2, c2) = client_rows cfg dryRun rows
                  (log_Printf x1 (LogBatch CLIENT (batchNum c + 1) (length rows)
                                    (ClientID (hd rows)) (ClientID (last rows))),
                   c\<lparr>batchNum := batchNum c + 1\<rparr>)"
  let ?w = "log_Printf x1 (LogBatch CLIENT (batchNum c + 1) (length rows)
                             (ClientID (hd rows)) (ClientID (last rows)))"
  let ?c = "c\<lparr>batchNum := batchNum c + 1\<rparr>"
  from fetch some have f: "fetchClientBatch w (lastID c) batchSize like = (x1, Some rows)"
    by simp
  have "client_ids w2 = client_ids ?w"
    using client_rows_ids [of cfg dryRun rows ?w ?c] p by (metis fst_conv)
  then have ids: "client_ids w2 = client_ids w"
    using fetchClientBatch_table [OF f] by simp
  have last: "lastID c2 = ClientID (last rows)"
    using client_rows_lastID [OF ne, of cfg dryRun ?w ?c] p by (metis snd_conv)
  have "last rows \<in> set rows"
    using ne by simp
  from fetchClientBatch_rows [OF f this]
  have "beyond (ClientID (last rows)) (client_ids w) < beyond (lastID c) (client_ids w)"
    by (simp add: beyond_less)
  then show "((cfg, dryRun, batchSize, like, w2, c2), (cfg, dryRun, batchSize, like, w, c))
         \<in> measure (\<lambda>(cfg, dryRun, batchSize, like, w, c). beyond (lastID c) (client_ids w))"
    using ids last by simp
qed

definition migrateClientRemoveTag ::
  "config \<Rightarrow> world \<Rightarrow> bool \<Rightarrow> nat \<Rightarrow> world \<times> error option \<times> ClientRow counters" where
  "migrateClientRemoveTag cfg w dryRun batchSize =
     (case migrateClient_loop cfg dryRun batchSize (hydraSignPrefix cfg @ ''%'')
             (log_Printf w (LogStart CLIENT)) counters0 of
        (w', Some e, c) \<Rightarrow> (w', Some e, c)
      | (w', None, c) \<Rightarrow>
          (log_Printf w' (LogSummary CLIENT (totalRows c) (totalUpdated c) (totalSkipped c)),
           None, c))"

section \<open>The run\<close>

text \<open>
  \<^verbatim>\<open>main\<close> (lines 81-117) from the first migrator on: the three migrators in turn, the
  run ending (\<^verbatim>\<open>log.Fatalf\<close>) at the first that returns an error.  The result carries the
  final counters of the three migrators (the initial ones for a migrator that was not
  reached).
\<close>

definition run_migrations ::
  "config \<Rightarrow> 'n json_codec \<Rightarrow> world \<Rightarrow> bool \<Rightarrow> nat
   \<Rightarrow> world \<times> error option
      \<times> BulkRow counters \<times> PartnerRow counters \<times> ClientRow counters" where
  "run_migrations cfg codec w dryRun batchSize =
     (case migrateBulkRemoveTag cfg w dryRun batchSize of
        (w1, Some e, c1) \<Rightarrow> (w1, Some e, c1, counters0, counters0)
      | (w1, None, c1) \<Rightarrow>
          (case migratePartnerRemoveTag codec w1 dryRun batchSize of
             (w2, Some e, c2) \<Rightarrow> (w2, Some e, c1, c2, counters0)
           | (w2, None, c2) \<Rightarrow>
               (case migrateClientRemoveTag cfg w2 dryRun batchSize of
                  (w3, e, c3) \<Rightarrow> (w3, e, c1, c2, c3))))"

section \<open>Properties\<close>

subsection \<open>The sanitizer leaves a URL without the two keys alone\<close>

text \<open>
  Claim C4.  When the input does not parse as a URL, or parses to a URL whose query has
  neither the key \<^verbatim>\<open>tag\<close> nor the key \<^verbatim>\<open>tagging\<close>, \<^verbatim>\<open>removeTagParamsFromURL\<close> returns the
  input itself, byte for byte, with \<^verbatim>\<open>changed = false\<close>.  The function is total: it has
  no error result, and a parse error is one of the cases that return the input.
\<close>

theorem removeTag_noop:
  assumes "case url_Parse rawURL of
             Inl e \<Rightarrow> True
           | Inr u \<Rightarrow> \<not> Values_has (URL_Query u) ''tag'' \<and> \<not> Values_has (URL_Query u) ''tagging''"
  shows "removeTagParamsFromURL rawURL = (rawURL, False)"
  using assms by (auto simp: removeTagParamsFromURL_def Let_def split: sum.splits)

theorem removeTag_noop_witness:
  "url_Parse ''http://a b/?tag=1'' = Inl (InvalidHostError '' '')
   \<and> removeTagParamsFromURL ''http://a b/?tag=1'' = (''http://a b/?tag=1'', False)
   \<and> removeTagParamsFromURL ''https://z/w?Tag=1&x=2'' = (''https://z/w?Tag=1&x=2'', False)"
proof -
  have p: "url_Parse ''http://a b/?tag=1'' = Inl (InvalidHostError '' '')"
    by code_simp
  have q: "case url_Parse ''https://z/w?Tag=1&x=2'' of
             Inl e \<Rightarrow> True
           | Inr u \<Rightarrow> \<not> Values_has (URL_Query u) ''tag'' \<and> \<not> Values_has (URL_Query u) ''tagging''"
    by code_simp
  show ?thesis
    using p removeTag_noop [of "''http://a b/?tag=1''"]
      removeTag_noop [OF q] by simp
qed

end
